theory Spec2Isabelle
  imports Main "HOL-Library.Sublist"
begin

section \<open>The data model (session.py, files.py)\<close>

text \<open>
  Python strings are modelled as \<open>string\<close>; one \<open>char\<close> stands for one character of
  a Python \<open>str\<close>, so \<open>length\<close> is Python's \<open>len\<close>. Fields carry the types of
  their annotations. A \<open>TypedDict\<close> is a plain dictionary at run time and is kept as a
  \<open>json\<close> value. Field names are prefixed with the name of their class, since the
  classes share names (\<open>type\<close>, \<open>text\<close>, \<open>path\<close>, \<open>id\<close>).
\<close>

datatype json =
    JNone
  | JBool bool
  | JInt int
  | JStr string
  | JList "json list"
  | JDict "(string \<times> json) list"

record Time =
  Time_created :: int
  Time_updated :: int

record Session =
  Session_id :: string
  Session_title :: string
  Session_version :: string
  Session_projectID :: string
  Session_directory :: string
  Session_time :: Time
  Session_parentID :: string

record TextPart =
  TextPart_text :: string
  TextPart_type :: string

record FileSourceText =
  FileSourceText_end :: int
  FileSourceText_start :: int
  FileSourceText_value :: string

record FileSource =
  FileSource_path :: string
  FileSource_text :: FileSourceText
  FileSource_type :: string

text \<open>\<open>FilePart.source\<close> is a \<open>FileSource\<close> or the empty dictionary of the default
  factory; the empty dictionary is \<open>None\<close>.\<close>

record FilePart =
  FilePart_mime :: string
  FilePart_url :: string
  FilePart_type :: string
  FilePart_id :: string
  FilePart_filename :: string
  FilePart_source :: "FileSource option"

datatype Part = Part_Text TextPart | Part_File FilePart

text \<open>\<open>UserMessage.system\<close> receives the optional \<open>system_message\<close> of
  \<open>send_message\<close> unchanged, so it may be \<open>None\<close>.\<close>

record UserMessage =
  UserMessage_modelID :: string
  UserMessage_providerID :: string
  UserMessage_parts :: "Part list"
  UserMessage_messageID :: string
  UserMessage_mode :: string
  UserMessage_system :: "string option"
  UserMessage_tools :: "(string \<times> bool) list"

record AssistantMessage =
  AssistantMessage_info :: json
  AssistantMessage_parts :: "json list"
  AssistantMessage_bloked :: bool

datatype FileOperation = Op_read | Op_get_status | Op_search_by_text | Op_search_by_name

record File =
  File_added :: int
  File_path :: string
  File_removed :: int
  File_status :: string

record Match =
  Match_path :: string
  Match_lines :: json
  Match_line_number :: int
  Match_absolute_offset :: int
  Match_submatches :: json

record ReadFile =
  ReadFile_type :: string
  ReadFile_content :: string

datatype message = User UserMessage | Assistant AssistantMessage

section \<open>Errors\<close>

text \<open>
  Every exception the code can meet is a value. \<open>ValueError\<close> carries the message the
  source gives it. \<open>UnicodeDecodeError\<close> (raised by reading a file as text) and
  \<open>JSONDecodeError\<close> (raised by \<open>res.json()\<close>) are subclasses of \<open>ValueError\<close> in
  Python; \<open>OSError\<close> (raised by \<open>open\<close>), \<open>TypeError\<close> (raised by
  \<open>Cls(**payload)\<close> on a payload of the wrong shape), \<open>HTTPStatusError\<close> (raised by
  \<open>raise_for_status\<close>) and \<open>RequestError\<close> (connection failure, timeout) are not.
\<close>

datatype error =
    ValueError string
  | UnicodeDecodeError string
  | JSONDecodeError string
  | OSError string
  | TypeError
  | HTTPStatusError
  | RequestError

text \<open>What \<open>except ValueError as e\<close> catches: \<open>Some (str e)\<close> for an instance of
  \<open>ValueError\<close>, \<open>None\<close> for an exception that passes the handler.\<close>

fun except_ValueError :: "error \<Rightarrow> string option" where
  "except_ValueError (ValueError m) = Some m"
| "except_ValueError (UnicodeDecodeError m) = Some m"
| "except_ValueError (JSONDecodeError m) = Some m"
| "except_ValueError (OSError m) = None"
| "except_ValueError TypeError = None"
| "except_ValueError HTTPStatusError = None"
| "except_ValueError RequestError = None"

section \<open>The server and the state\<close>

datatype http_method = GET | POST | PATCH | DELETE

record request =
  req_base_url :: string
  req_timeout :: int
  req_method :: http_method
  req_url :: string
  req_json :: "json option"

text \<open>
  The body of a response as \<open>res.json()\<close> reads it: not JSON at all, one value, or an
  array. Values are taken at the annotated types of the class they decode to;
  \<open>Other_val\<close> is any value that no class of the data model accepts. Where the code
  iterates over a body, a body that is not an array raises \<open>TypeError\<close> (the empty
  object and the empty string, over which a loop would not run at all, are left out).
\<close>

datatype item =
    Session_obj Session
  | AssistantMessage_obj AssistantMessage
  | File_obj File
  | ReadFile_obj ReadFile
  | Match_obj Match
  | Str_val string
  | Other_val

datatype payload = Not_json string | One item | Array "item list"

text \<open>A call either fails to get a response, or gets one: the flag says whether
  \<open>raise_for_status\<close> accepts its status.\<close>

datatype response = Connect_error | Response bool payload

text \<open>The server is outside the program. It answers a request knowing the requests it
  has received before, so it may keep any state of its own.\<close>

type_synonym server = "request list \<Rightarrow> request \<Rightarrow> response"

record OpenCodeClient =
  base_url :: string
  model_provider :: string
  model :: string
  timeout :: int
  current_session :: "Session option"
  chat_history :: "message list"

text \<open>\<open>OpenCodeClient.__init__\<close>; the default of \<open>timeout\<close> is 600.\<close>

definition init :: "string \<Rightarrow> string \<Rightarrow> string \<Rightarrow> int \<Rightarrow> OpenCodeClient" where
  "init base_url' model_provider' model' timeout' =
     \<lparr>base_url = base_url', model_provider = model_provider', model = model',
      timeout = timeout', current_session = None, chat_history = []\<rparr>"

text \<open>
  What a method can change: the client object, the requests sent so far (in order), and
  the warnings issued so far (in order, under Python's default filter, where
  \<open>warnings.warn\<close> reports and returns).
\<close>

record state =
  client :: OpenCodeClient
  requests :: "request list"
  warnings :: "string list"

text \<open>
  One HTTP call inside \<open>async with self._get_client() as client\<close>, followed by
  \<open>res.raise_for_status()\<close>, as every method of the client does: the request is
  recorded, and the body of an accepted response is returned.
\<close>

definition http :: "server \<Rightarrow> http_method \<Rightarrow> string \<Rightarrow> json option \<Rightarrow> state \<Rightarrow> (error + payload) \<times> state" where
  "http srv m url body st =
     (let r = \<lparr>req_base_url = base_url (client st), req_timeout = timeout (client st),
                req_method = m, req_url = url, req_json = body\<rparr>
      in ((case srv (requests st) r of
             Connect_error \<Rightarrow> Inl RequestError
           | Response ok p \<Rightarrow> if ok then Inr p else Inl HTTPStatusError),
          st\<lparr>requests := requests st @ [r]\<rparr>))"

text \<open>\<open>res.json()\<close>\<close>

fun res_json :: "payload \<Rightarrow> error + payload" where
  "res_json (Not_json m) = Inl (JSONDecodeError m)"
| "res_json p = Inr p"

text \<open>\<open>Session(**d)\<close>, \<open>AssistantMessage(**d)\<close>, \<open>File(**d)\<close>, \<open>Match(**d)\<close>,
  \<open>ReadFile(**d)\<close>: a \<open>TypeError\<close> unless \<open>d\<close> has the fields of the class.\<close>

fun Session_of :: "payload \<Rightarrow> error + Session" where
  "Session_of (One (Session_obj s)) = Inr s"
| "Session_of _ = Inl TypeError"

fun AssistantMessage_of :: "payload \<Rightarrow> error + AssistantMessage" where
  "AssistantMessage_of (One (AssistantMessage_obj a)) = Inr a"
| "AssistantMessage_of _ = Inl TypeError"

fun ReadFile_of :: "payload \<Rightarrow> error + ReadFile" where
  "ReadFile_of (One (ReadFile_obj r)) = Inr r"
| "ReadFile_of _ = Inl TypeError"

text \<open>The loops \<open>for x in payload: xs.append(Cls(**x))\<close>: the first element that is
  not of the class raises.\<close>

fun Sessions_loop :: "item list \<Rightarrow> Session list \<Rightarrow> error + Session list" where
  "Sessions_loop [] sessions = Inr sessions"
| "Sessions_loop (Session_obj s # payload) sessions = Sessions_loop payload (sessions @ [s])"
| "Sessions_loop (_ # payload) sessions = Inl TypeError"

fun Files_loop :: "item list \<Rightarrow> File list \<Rightarrow> error + File list" where
  "Files_loop [] files = Inr files"
| "Files_loop (File_obj f # payload) files = Files_loop payload (files @ [f])"
| "Files_loop (_ # payload) files = Inl TypeError"

fun Matches_loop :: "item list \<Rightarrow> Match list \<Rightarrow> error + Match list" where
  "Matches_loop [] matches = Inr matches"
| "Matches_loop (Match_obj m # payload) matches = Matches_loop payload (matches @ [m])"
| "Matches_loop (_ # payload) matches = Inl TypeError"

section \<open>Truthiness\<close>

text \<open>\<open>not x\<close> and \<open>x or y\<close> on an optional string: \<open>None\<close> and the empty string
  are false.\<close>

fun truthy :: "string option \<Rightarrow> bool" where
  "truthy None = False"
| "truthy (Some s) = (s \<noteq> [])"

definition py_or :: "string option \<Rightarrow> string option \<Rightarrow> string option" where
  "py_or a b = (if truthy a then a else b)"

section \<open>Sessions (client.py)\<close>

text \<open>The body \<open>{"parentID": parent_id or "", "title": title}\<close>.\<close>

definition create_json :: "string option \<Rightarrow> string option \<Rightarrow> json" where
  "create_json title parent_id =
     JDict [(''parentID'', (case py_or parent_id (Some '''') of Some p \<Rightarrow> JStr p | None \<Rightarrow> JNone)),
            (''title'', (case title of Some t \<Rightarrow> JStr t | None \<Rightarrow> JNone))]"

definition create_current_session :: "server \<Rightarrow> string option \<Rightarrow> string option \<Rightarrow> state \<Rightarrow> (error + Session) \<times> state" where
  "create_current_session srv title parent_id st =
     (case http srv POST ''/session'' (Some (create_json title parent_id)) st of
        (Inl e, st1) \<Rightarrow> (Inl e, st1)
      | (Inr p, st1) \<Rightarrow>
          (case res_json p of
             Inl e \<Rightarrow> (Inl e, st1)
           | Inr d \<Rightarrow>
               (case Session_of d of
                  Inl e \<Rightarrow> (Inl e, st1)
                | Inr s \<Rightarrow> (Inr s, st1\<lparr>client := (client st1)\<lparr>current_session := Some s\<rparr>\<rparr>))))"

definition list_sessions :: "server \<Rightarrow> state \<Rightarrow> (error + Session list) \<times> state" where
  "list_sessions srv st =
     (case http srv GET ''/session'' None st of
        (Inl e, st1) \<Rightarrow> (Inl e, st1)
      | (Inr p, st1) \<Rightarrow>
          (case res_json p of
             Inl e \<Rightarrow> (Inl e, st1)
           | Inr (Array payload) \<Rightarrow> (Sessions_loop payload [], st1)
           | Inr _ \<Rightarrow> (Inl TypeError, st1)))"

text \<open>The private methods \<open>_delete_session\<close>, \<open>_update_session\<close>,
  \<open>_abort_session\<close>: one call each, the body of the response is not read.\<close>

definition delete_session' :: "server \<Rightarrow> string \<Rightarrow> state \<Rightarrow> (error + unit) \<times> state" where
  "delete_session' srv session_id st =
     (case http srv DELETE (''/session/'' @ session_id) None st of
        (Inl e, st1) \<Rightarrow> (Inl e, st1)
      | (Inr _, st1) \<Rightarrow> (Inr (), st1))"

definition update_session' :: "server \<Rightarrow> string \<Rightarrow> string \<Rightarrow> state \<Rightarrow> (error + unit) \<times> state" where
  "update_session' srv session_id title st =
     (case http srv PATCH (''/session/'' @ session_id) (Some (JDict [(''title'', JStr title)])) st of
        (Inl e, st1) \<Rightarrow> (Inl e, st1)
      | (Inr _, st1) \<Rightarrow> (Inr (), st1))"

definition abort_session' :: "server \<Rightarrow> string \<Rightarrow> state \<Rightarrow> (error + unit) \<times> state" where
  "abort_session' srv session_id st =
     (case http srv POST (''/session/'' @ session_id @ ''/abort'') None st of
        (Inl e, st1) \<Rightarrow> (Inl e, st1)
      | (Inr _, st1) \<Rightarrow> (Inr (), st1))"

text \<open>
  The two lines that open \<open>delete_session\<close>, \<open>abort_session\<close> and \<open>send_message\<close>,
  and the \<open>else\<close> branch of \<open>update_session\<close>:
  \<^verbatim>\<open>session_id = session_id or (self._current_session.id if self._current_session else None)\<close>
  \<^verbatim>\<open>if not session_id: raise ValueError(...)\<close>
\<close>

definition no_session_id :: string where
  "no_session_id = ''No session ID provided and no session ID available from current session''"

definition session_id_or_current :: "string option \<Rightarrow> OpenCodeClient \<Rightarrow> error + string" where
  "session_id_or_current session_id self =
     (case py_or session_id
             (case current_session self of Some s \<Rightarrow> Some (Session_id s) | None \<Rightarrow> None) of
        None \<Rightarrow> Inl (ValueError no_session_id)
      | Some sid \<Rightarrow> if sid = [] then Inl (ValueError no_session_id) else Inr sid)"

definition delete_session :: "server \<Rightarrow> string option \<Rightarrow> state \<Rightarrow> (error + unit) \<times> state" where
  "delete_session srv session_id st =
     (case session_id_or_current session_id (client st) of
        Inl e \<Rightarrow> (Inl e, st)
      | Inr sid \<Rightarrow> delete_session' srv sid st)"

definition update_session :: "server \<Rightarrow> string option \<Rightarrow> string option \<Rightarrow> state \<Rightarrow> (error + unit) \<times> state" where
  "update_session srv session_id title st =
     (case title of
        None \<Rightarrow> (Inr (), st)
      | Some t \<Rightarrow>
          if t = [] then (Inr (), st)
          else (case session_id_or_current session_id (client st) of
                  Inl e \<Rightarrow> (Inl e, st)
                | Inr sid \<Rightarrow> update_session' srv sid t st))"

definition abort_session :: "server \<Rightarrow> string option \<Rightarrow> state \<Rightarrow> (error + unit) \<times> state" where
  "abort_session srv session_id st =
     (case session_id_or_current session_id (client st) of
        Inl e \<Rightarrow> (Inl e, st)
      | Inr sid \<Rightarrow> abort_session' srv sid st)"

section \<open>Message parts (session.py)\<close>

text \<open>
  The file system and the standard library's table of MIME types are outside the
  program and are parameters: \<open>path_resolve\<close> is \<open>str(Path(file).resolve())\<close>,
  \<open>path_exists\<close> and \<open>path_isfile\<close> are \<open>os.path.exists\<close> and \<open>os.path.isfile\<close>,
  \<open>open_read\<close> is \<open>open(file, "r")\<close> followed by \<open>f.read()\<close> (the content, or the
  exception raised), \<open>guess_type\<close> is the first component of
  \<open>mimetypes.guess_type\<close>. Resolving a path is taken to succeed.
\<close>

record filesystem =
  path_resolve :: "string \<Rightarrow> string"
  path_exists :: "string \<Rightarrow> bool"
  path_isfile :: "string \<Rightarrow> bool"
  open_read :: "string \<Rightarrow> error + string"
  guess_type :: "string \<Rightarrow> string option"

definition TextPart_from_string :: "string \<Rightarrow> TextPart" where
  "TextPart_from_string string = \<lparr>TextPart_text = string, TextPart_type = ''text''\<rparr>"

definition FileSourceText_from_file :: "filesystem \<Rightarrow> string \<Rightarrow> error + FileSourceText" where
  "FileSourceText_from_file fs file =
     (case open_read fs file of
        Inl e \<Rightarrow> Inl e
      | Inr content \<Rightarrow>
          Inr \<lparr>FileSourceText_end = int (length content), FileSourceText_start = 0,
               FileSourceText_value = content\<rparr>)"

definition FileSource_from_file :: "filesystem \<Rightarrow> string \<Rightarrow> error + FileSource" where
  "FileSource_from_file fs file =
     (case FileSourceText_from_file fs file of
        Inl e \<Rightarrow> Inl e
      | Inr t \<Rightarrow> Inr \<lparr>FileSource_path = file, FileSource_text = t, FileSource_type = ''file''\<rparr>)"

definition raw_guess_mimetypes :: "filesystem \<Rightarrow> string \<Rightarrow> string option" where
  "raw_guess_mimetypes fs file = guess_type fs file"

definition no_mimetype_path :: string where
  "no_mimetype_path = ''It was not possible to guess the mimetype for your file from the provided path''"

definition no_mimetype_url :: string where
  "no_mimetype_url = ''It was not possible to guess the mimetype for your file from the provided URL''"

definition does_not_exist :: string where
  "does_not_exist = ''The provided file does not exist''"

definition FilePart_from_file :: "filesystem \<Rightarrow> string \<Rightarrow> error + FilePart" where
  "FilePart_from_file fs file =
     (let abs_path = path_resolve fs file in
      if path_exists fs abs_path \<and> path_isfile fs abs_path then
        (let mimetype = raw_guess_mimetypes fs abs_path in
         if \<not> truthy mimetype then Inl (ValueError no_mimetype_path)
         else
           (case mimetype of
              None \<Rightarrow> Inl (ValueError no_mimetype_path)
            | Some mt \<Rightarrow>
                if \<not> prefix ''text/'' mt then Inl (ValueError (''Unsopported type: '' @ mt))
                else
                  (case FileSource_from_file fs abs_path of
                     Inl e \<Rightarrow> Inl e
                   | Inr src \<Rightarrow>
                       Inr \<lparr>FilePart_mime = mt, FilePart_url = ''file://'' @ abs_path,
                            FilePart_type = ''file'', FilePart_id = '''',
                            FilePart_filename = file, FilePart_source = Some src\<rparr>)))
      else Inl (ValueError does_not_exist))"

definition FilePart_from_url :: "filesystem \<Rightarrow> string \<Rightarrow> error + FilePart" where
  "FilePart_from_url fs url =
     (let mimetype = raw_guess_mimetypes fs url in
      if \<not> truthy mimetype then Inl (ValueError no_mimetype_url)
      else
        (case mimetype of
           None \<Rightarrow> Inl (ValueError no_mimetype_url)
         | Some mt \<Rightarrow>
             Inr \<lparr>FilePart_mime = mt, FilePart_url = url, FilePart_type = ''file'',
                  FilePart_id = '''', FilePart_filename = '''', FilePart_source = None\<rparr>))"

subsection \<open>\<open>dataclasses.asdict\<close>\<close>

definition asdict_TextPart :: "TextPart \<Rightarrow> json" where
  "asdict_TextPart p = JDict [(''text'', JStr (TextPart_text p)), (''type'', JStr (TextPart_type p))]"

definition asdict_FileSourceText :: "FileSourceText \<Rightarrow> json" where
  "asdict_FileSourceText t =
     JDict [(''end'', JInt (FileSourceText_end t)), (''start'', JInt (FileSourceText_start t)),
            (''value'', JStr (FileSourceText_value t))]"

definition asdict_FileSource :: "FileSource \<Rightarrow> json" where
  "asdict_FileSource s =
     JDict [(''path'', JStr (FileSource_path s)), (''text'', asdict_FileSourceText (FileSource_text s)),
            (''type'', JStr (FileSource_type s))]"

definition asdict_FilePart :: "FilePart \<Rightarrow> json" where
  "asdict_FilePart p =
     JDict [(''mime'', JStr (FilePart_mime p)), (''url'', JStr (FilePart_url p)),
            (''type'', JStr (FilePart_type p)), (''id'', JStr (FilePart_id p)),
            (''filename'', JStr (FilePart_filename p)),
            (''source'', (case FilePart_source p of None \<Rightarrow> JDict [] | Some s \<Rightarrow> asdict_FileSource s))]"

fun asdict_Part :: "Part \<Rightarrow> json" where
  "asdict_Part (Part_Text p) = asdict_TextPart p"
| "asdict_Part (Part_File p) = asdict_FilePart p"

definition asdict_UserMessage :: "UserMessage \<Rightarrow> json" where
  "asdict_UserMessage m =
     JDict [(''modelID'', JStr (UserMessage_modelID m)),
            (''providerID'', JStr (UserMessage_providerID m)),
            (''parts'', JList (map asdict_Part (UserMessage_parts m))),
            (''messageID'', JStr (UserMessage_messageID m)),
            (''mode'', JStr (UserMessage_mode m)),
            (''system'', (case UserMessage_system m of None \<Rightarrow> JNone | Some s \<Rightarrow> JStr s)),
            (''tools'', JDict (map (\<lambda>(k, b). (k, JBool b)) (UserMessage_tools m)))]"

section \<open>Sending a message (client.py)\<close>

definition send_message_to_session :: "server \<Rightarrow> string \<Rightarrow> UserMessage \<Rightarrow> state \<Rightarrow> (error + AssistantMessage) \<times> state" where
  "send_message_to_session srv session_id message st =
     (case http srv POST (''/session/'' @ session_id @ ''/message'') (Some (asdict_UserMessage message)) st of
        (Inl e, st1) \<Rightarrow> (Inl e, st1)
      | (Inr p, st1) \<Rightarrow>
          (case res_json p of
             Inl e \<Rightarrow> (Inl e, st1)
           | Inr d \<Rightarrow>
               (case AssistantMessage_of d of
                  Inl e \<Rightarrow> (Inl e, st1)
                | Inr a \<Rightarrow> (Inr a, st1))))"

text \<open>The arguments \<open>text\<close> and \<open>file\<close> are a string or a list of strings.\<close>

datatype str_or_list = Str string | Strs "string list"

text \<open>\<open>f.startswith(("http://", "https://", "ftp://", "file://"))\<close>\<close>

definition startswith_scheme :: "string \<Rightarrow> bool" where
  "startswith_scheme f =
     (prefix ''http://'' f \<or> prefix ''https://'' f \<or> prefix ''ftp://'' f \<or> prefix ''file://'' f)"

definition warning_text :: "string \<Rightarrow> string \<Rightarrow> string" where
  "warning_text f e =
     ''It was not possible to include file '' @ f @ '' as FilePart because of: '' @ e"

definition warn :: "string \<Rightarrow> state \<Rightarrow> state" where
  "warn w st = st\<lparr>warnings := warnings st @ [w]\<rparr>"

text \<open>
  The statement that handles one file input. The source writes it twice, as the body of
  the loop over a list (lines 126 to 133) and for a single string (lines 135 to 141).
  An exception that leaves it loses the local \<open>parts\<close> and keeps the warnings issued.
\<close>

definition include_file :: "filesystem \<Rightarrow> string \<Rightarrow> Part list \<Rightarrow> state \<Rightarrow> (error + Part list) \<times> state" where
  "include_file fs f parts st =
     (if startswith_scheme f then
        (case FilePart_from_url fs f of
           Inl e \<Rightarrow> (Inl e, st)
         | Inr p \<Rightarrow> (Inr (parts @ [Part_File p]), st))
      else
        (case FilePart_from_file fs f of
           Inr p \<Rightarrow> (Inr (parts @ [Part_File p]), st)
         | Inl e \<Rightarrow>
             (case except_ValueError e of
                Some m \<Rightarrow> (Inr parts, warn (warning_text f m) st)
              | None \<Rightarrow> (Inl e, st))))"

fun text_loop :: "string list \<Rightarrow> Part list \<Rightarrow> Part list" where
  "text_loop [] parts = parts"
| "text_loop (t # text) parts = text_loop text (parts @ [Part_Text (TextPart_from_string t)])"

fun file_loop :: "filesystem \<Rightarrow> string list \<Rightarrow> Part list \<Rightarrow> state \<Rightarrow> (error + Part list) \<times> state" where
  "file_loop fs [] parts st = (Inr parts, st)"
| "file_loop fs (f # file) parts st =
     (case include_file fs f parts st of
        (Inl e, st1) \<Rightarrow> (Inl e, st1)
      | (Inr parts1, st1) \<Rightarrow> file_loop fs file parts1 st1)"

text \<open>Lines 123 to 141: \<open>if file:\<close> is false for \<open>None\<close>, the empty string and the
  empty list.\<close>

definition include_files :: "filesystem \<Rightarrow> str_or_list option \<Rightarrow> Part list \<Rightarrow> state \<Rightarrow> (error + Part list) \<times> state" where
  "include_files fs file parts st =
     (case file of
        None \<Rightarrow> (Inr parts, st)
      | Some (Strs fl) \<Rightarrow> if fl = [] then (Inr parts, st) else file_loop fs fl parts st
      | Some (Str f) \<Rightarrow> if f = [] then (Inr parts, st) else include_file fs f parts st)"

definition new_UserMessage :: "OpenCodeClient \<Rightarrow> Part list \<Rightarrow> string option \<Rightarrow> UserMessage" where
  "new_UserMessage self parts system_message =
     \<lparr>UserMessage_modelID = model self, UserMessage_providerID = model_provider self,
      UserMessage_parts = parts, UserMessage_messageID = '''', UserMessage_mode = ''build'',
      UserMessage_system = system_message, UserMessage_tools = []\<rparr>"

definition history_append :: "message \<Rightarrow> state \<Rightarrow> state" where
  "history_append m st = st\<lparr>client := (client st)\<lparr>chat_history := chat_history (client st) @ [m]\<rparr>\<rparr>"

definition send_message :: "server \<Rightarrow> filesystem \<Rightarrow> str_or_list \<Rightarrow> str_or_list option \<Rightarrow> string option \<Rightarrow> string option \<Rightarrow> state \<Rightarrow> (error + AssistantMessage) \<times> state" where
  "send_message srv fs text file system_message session_id st =
     (case session_id_or_current session_id (client st) of
        Inl e \<Rightarrow> (Inl e, st)
      | Inr sid \<Rightarrow>
          (let parts = (case text of
                          Strs ts \<Rightarrow> text_loop ts []
                        | Str t \<Rightarrow> [Part_Text (TextPart_from_string t)])
           in (case include_files fs file parts st of
                 (Inl e, st1) \<Rightarrow> (Inl e, st1)
               | (Inr parts1, st1) \<Rightarrow>
                   (let user_message = new_UserMessage (client st1) parts1 system_message;
                        st2 = history_append (User user_message) st1
                    in (case send_message_to_session srv sid user_message st2 of
                          (Inl e, st3) \<Rightarrow> (Inl e, st3)
                        | (Inr assistant_message, st3) \<Rightarrow>
                            (Inr assistant_message, history_append (Assistant assistant_message) st3))))))"

section \<open>File inspection (client.py)\<close>

datatype file_result =
    Files_result "File list"
  | ReadFile_result ReadFile
  | Json_result payload
  | Matches_result "Match list"

text \<open>An operation and an optional string inside an f-string.\<close>

fun str_FileOperation :: "FileOperation \<Rightarrow> string" where
  "str_FileOperation Op_read = ''read''"
| "str_FileOperation Op_get_status = ''get_status''"
| "str_FileOperation Op_search_by_text = ''search_by_text''"
| "str_FileOperation Op_search_by_name = ''search_by_name''"

fun str_query :: "string option \<Rightarrow> string" where
  "str_query None = ''None''"
| "str_query (Some q) = q"

definition requires_query :: "FileOperation \<Rightarrow> string" where
  "requires_query operation = ''Operation '' @ str_FileOperation operation @ '' requires a query value.''"

definition perform_file_operation :: "server \<Rightarrow> FileOperation \<Rightarrow> string option \<Rightarrow> state \<Rightarrow> (error + file_result) \<times> state" where
  "perform_file_operation srv operation query st =
     (if \<not> truthy query \<and> operation \<noteq> Op_get_status then
        (Inl (ValueError (requires_query operation)), st)
      else if operation = Op_get_status then
        (case http srv GET ''/file/status'' None st of
           (Inl e, st1) \<Rightarrow> (Inl e, st1)
         | (Inr p, st1) \<Rightarrow>
             (case res_json p of
                Inl e \<Rightarrow> (Inl e, st1)
              | Inr (Array payload) \<Rightarrow> (map_sum id Files_result (Files_loop payload []), st1)
              | Inr _ \<Rightarrow> (Inl TypeError, st1)))
      else if operation = Op_read then
        (case http srv GET (''/file?path='' @ str_query query) None st of
           (Inl e, st1) \<Rightarrow> (Inl e, st1)
         | (Inr p, st1) \<Rightarrow>
             (case res_json p of
                Inl e \<Rightarrow> (Inl e, st1)
              | Inr d \<Rightarrow> (map_sum id ReadFile_result (ReadFile_of d), st1)))
      else if operation = Op_search_by_name then
        (case http srv GET (''/find/file?query='' @ str_query query) None st of
           (Inl e, st1) \<Rightarrow> (Inl e, st1)
         | (Inr p, st1) \<Rightarrow>
             (case res_json p of
                Inl e \<Rightarrow> (Inl e, st1)
              | Inr d \<Rightarrow> (Inr (Json_result d), st1)))
      else
        (case http srv GET (''/find?pattern='' @ str_query query) None st of
           (Inl e, st1) \<Rightarrow> (Inl e, st1)
         | (Inr p, st1) \<Rightarrow>
             (case res_json p of
                Inl e \<Rightarrow> (Inl e, st1)
              | Inr (Array payload) \<Rightarrow> (map_sum id Matches_result (Matches_loop payload []), st1)
              | Inr _ \<Rightarrow> (Inl TypeError, st1))))"

definition search_file_by_name :: "server \<Rightarrow> string \<Rightarrow> state \<Rightarrow> (error + file_result) \<times> state" where
  "search_file_by_name srv name st = perform_file_operation srv Op_search_by_name (Some name) st"

definition search_file_by_text :: "server \<Rightarrow> string \<Rightarrow> state \<Rightarrow> (error + file_result) \<times> state" where
  "search_file_by_text srv pattern st = perform_file_operation srv Op_search_by_text (Some pattern) st"

definition read_file :: "server \<Rightarrow> string \<Rightarrow> state \<Rightarrow> (error + file_result) \<times> state" where
  "read_file srv path st = perform_file_operation srv Op_read (Some path) st"

definition get_files_status :: "server \<Rightarrow> state \<Rightarrow> (error + file_result) \<times> state" where
  "get_files_status srv st = perform_file_operation srv Op_get_status None st"

section \<open>Vocabulary of the claims\<close>

text \<open>
  The inputs of a call in the order the source visits them: the texts, and the file
  inputs that \<open>if file:\<close> lets through.
\<close>

fun text_inputs :: "str_or_list \<Rightarrow> string list" where
  "text_inputs (Str t) = [t]"
| "text_inputs (Strs ts) = ts"

fun file_inputs :: "str_or_list option \<Rightarrow> string list" where
  "file_inputs None = []"
| "file_inputs (Some (Str f)) = (if f = [] then [] else [f])"
| "file_inputs (Some (Strs fl)) = fl"

text \<open>The constructor the source picks for a file input, by its prefix.\<close>

definition construct :: "filesystem \<Rightarrow> string \<Rightarrow> error + FilePart" where
  "construct fs f = (if startswith_scheme f then FilePart_from_url fs f else FilePart_from_file fs f)"

text \<open>A file input whose exception leaves \<open>send_message\<close>: a remote input that fails,
  or a local input that fails with an exception that is not a \<open>ValueError\<close>.\<close>

definition propagates :: "filesystem \<Rightarrow> string \<Rightarrow> bool" where
  "propagates fs f =
     (case construct fs f of
        Inr p \<Rightarrow> False
      | Inl e \<Rightarrow> startswith_scheme f \<or> except_ValueError e = None)"

text \<open>The parts of the inputs that construct, in the order of the inputs, and the
  warnings of the local inputs that fail with a \<open>ValueError\<close>, in the order of the
  inputs.\<close>

definition constructed_parts :: "filesystem \<Rightarrow> string list \<Rightarrow> Part list" where
  "constructed_parts fs fl =
     concat (map (\<lambda>f. case construct fs f of Inr p \<Rightarrow> [Part_File p] | Inl e \<Rightarrow> []) fl)"

definition skipped_warnings :: "filesystem \<Rightarrow> string list \<Rightarrow> string list" where
  "skipped_warnings fs fl =
     concat (map (\<lambda>f. case construct fs f of
                         Inr p \<Rightarrow> []
                       | Inl e \<Rightarrow> (case except_ValueError e of
                                     Some m \<Rightarrow> [warning_text f m]
                                   | None \<Rightarrow> [])) fl)"

text \<open>The request that carries a composed message to a session.\<close>

definition message_request :: "OpenCodeClient \<Rightarrow> string \<Rightarrow> UserMessage \<Rightarrow> request" where
  "message_request self sid um =
     \<lparr>req_base_url = base_url self, req_timeout = timeout self, req_method = POST,
      req_url = ''/session/'' @ sid @ ''/message'', req_json = Some (asdict_UserMessage um)\<rparr>"

text \<open>What \<open>_send_message_to_session\<close> makes of the server's response.\<close>

definition answer :: "response \<Rightarrow> error + AssistantMessage" where
  "answer r =
     (case r of
        Connect_error \<Rightarrow> Inl RequestError
      | Response ok p \<Rightarrow>
          if \<not> ok then Inl HTTPStatusError
          else (case res_json p of Inl e \<Rightarrow> Inl e | Inr d \<Rightarrow> AssistantMessage_of d))"

section \<open>A concrete client, server and file system\<close>

definition demo_session :: Session where
  "demo_session =
     \<lparr>Session_id = ''ses_1'', Session_title = ''test'', Session_version = ''0.1'',
      Session_projectID = ''prj'', Session_directory = ''/work'',
      Session_time = \<lparr>Time_created = 1, Time_updated = 2\<rparr>, Session_parentID = ''''\<rparr>"

definition demo_session2 :: Session where
  "demo_session2 = demo_session\<lparr>Session_id := ''ses_2'', Session_title := ''hello''\<rparr>"

definition demo_answer :: AssistantMessage where
  "demo_answer =
     \<lparr>AssistantMessage_info = JDict [(''id'', JStr ''msg_1''), (''sessionID'', JStr ''ses_1'')],
      AssistantMessage_parts = [JDict [(''type'', JStr ''text''), (''text'', JStr ''done'')]],
      AssistantMessage_bloked = False\<rparr>"

text \<open>A server with two sessions that answers every message, and one that is down.\<close>

definition demo_srv :: server where
  "demo_srv log r =
     (if req_method r = POST \<and> req_url r = ''/session'' then Response True (One (Session_obj demo_session))
      else if req_method r = GET \<and> req_url r = ''/session'' then
        Response True (Array [Session_obj demo_session, Session_obj demo_session2])
      else if req_method r = POST \<and> suffix ''/message'' (req_url r) then
        Response True (One (AssistantMessage_obj demo_answer))
      else if req_method r = GET \<and> req_url r = ''/file/status'' then Response True (Array [])
      else Response True (One Other_val))"


text \<open>
  A directory \<open>/work\<close> with a text file, a text file that may not be opened, a text
  file that is not valid in the locale's encoding, an image and a file without
  extension; every other path is missing.
\<close>

definition demo_fs :: filesystem where
  "demo_fs =
     \<lparr>path_resolve = (\<lambda>f. ''/work/'' @ f),
      path_exists = (\<lambda>p. p \<in> set [''/work/notes.txt'', ''/work/locked.txt'', ''/work/latin1.txt'',
                                    ''/work/logo.png'', ''/work/LICENSE'']),
      path_isfile = (\<lambda>p. p \<in> set [''/work/notes.txt'', ''/work/locked.txt'', ''/work/latin1.txt'',
                                    ''/work/logo.png'', ''/work/LICENSE'']),
      open_read = (\<lambda>p. if p = ''/work/notes.txt'' then Inr ''hello''
                        else if p = ''/work/latin1.txt'' then Inl (UnicodeDecodeError ''invalid start byte'')
                        else Inl (OSError ''Permission denied'')),
      guess_type = (\<lambda>p. if suffix ''.txt'' p then Some ''text/plain''
                         else if suffix ''.png'' p then Some ''image/png''
                         else None)\<rparr>"

definition demo_client :: OpenCodeClient where
  "demo_client = init ''http://127.0.0.1:4596'' ''openai'' ''gpt-5'' 600"

text \<open>A fresh client, and the same client with a current session.\<close>

definition demo_state :: state where
  "demo_state = \<lparr>client = demo_client, requests = [], warnings = []\<rparr>"

definition demo_state1 :: state where
  "demo_state1 = demo_state\<lparr>client := demo_client\<lparr>current_session := Some demo_session\<rparr>\<rparr>"

section \<open>Lemmas on the building blocks\<close>

lemmas demo_defs =
  demo_state_def demo_state1_def demo_client_def init_def demo_session_def demo_session2_def

lemma session_id_or_current_None:
  "current_session self = None \<Longrightarrow> session_id_or_current None self = Inl (ValueError no_session_id)"
  by (simp add: session_id_or_current_def py_or_def)

lemma session_id_or_current_empty:
  "session_id_or_current (Some []) self = session_id_or_current None self"
  by (simp add: session_id_or_current_def py_or_def)

subsection \<open>Requests and decoding\<close>

lemma http_eq:
  "http srv m url body st =
     ((case srv (requests st) \<lparr>req_base_url = base_url (client st), req_timeout = timeout (client st),
                req_method = m, req_url = url, req_json = body\<rparr> of
         Connect_error \<Rightarrow> Inl RequestError
       | Response ok p \<Rightarrow> if ok then Inr p else Inl HTTPStatusError),
      st\<lparr>requests := requests st @ [\<lparr>req_base_url = base_url (client st), req_timeout = timeout (client st),
                req_method = m, req_url = url, req_json = body\<rparr>]\<rparr>)"
  by (simp add: http_def Let_def)

lemma create_json_eq:
  "create_json title parent_id =
     JDict [(''parentID'', JStr (case parent_id of None \<Rightarrow> '''' | Some p \<Rightarrow> p)),
            (''title'', (case title of None \<Rightarrow> JNone | Some t \<Rightarrow> JStr t))]"
  by (cases parent_id) (auto simp: create_json_def py_or_def)

lemma Session_of_Inr: "Session_of d = Inr s \<longleftrightarrow> d = One (Session_obj s)"
  by (cases d rule: Session_of.cases) auto

lemma res_json_Inr: "res_json p = Inr d \<longleftrightarrow> d = p \<and> (\<forall>m. p \<noteq> Not_json m)"
  by (cases p) auto

lemma create_current_session_requests:
  "requests (snd (create_current_session srv title parent_id st)) =
     requests st @ [\<lparr>req_base_url = base_url (client st), req_timeout = timeout (client st),
          req_method = POST, req_url = ''/session'', req_json = Some (create_json title parent_id)\<rparr>]"
  by (simp add: create_current_session_def http_eq split: response.splits sum.splits)

lemma create_current_session_Inr:
  "create_current_session srv title parent_id st = (Inr s, st') \<longleftrightarrow>
     srv (requests st) \<lparr>req_base_url = base_url (client st), req_timeout = timeout (client st),
          req_method = POST, req_url = ''/session'', req_json = Some (create_json title parent_id)\<rparr>
       = Response True (One (Session_obj s))
     \<and> st' = st\<lparr>requests := requests st @ [\<lparr>req_base_url = base_url (client st), req_timeout = timeout (client st),
          req_method = POST, req_url = ''/session'', req_json = Some (create_json title parent_id)\<rparr>],
             client := (client st)\<lparr>current_session := Some s\<rparr>\<rparr>"
  by (auto simp: create_current_session_def http_eq Session_of_Inr res_json_Inr
      split: response.splits sum.splits)

lemma perform_file_operation_guard:
  "\<not> truthy query \<Longrightarrow> operation \<noteq> Op_get_status \<Longrightarrow>
     perform_file_operation srv operation query st = (Inl (ValueError (requires_query operation)), st)"
  by (simp add: perform_file_operation_def)

lemma map_sum_not_ValueError:
  "(\<forall>m. x \<noteq> Inl (ValueError m)) \<Longrightarrow> map_sum id f x \<noteq> Inl (ValueError m)"
  by (cases x) auto

lemma Files_loop_not_ValueError: "Files_loop payload files \<noteq> Inl (ValueError m)"
  by (induction payload files rule: Files_loop.induct) simp_all

lemma send_message_to_session_eq:
  "send_message_to_session srv sid um st =
     (answer (srv (requests st) (message_request (client st) sid um)),
      st\<lparr>requests := requests st @ [message_request (client st) sid um]\<rparr>)"
  by (simp add: send_message_to_session_def http_def message_request_def answer_def Let_def
      split: response.splits sum.splits)

lemma message_request_chat_history:
  "message_request (self\<lparr>chat_history := h\<rparr>) sid um = message_request self sid um"
  by (simp add: message_request_def)

lemma list_sessions_client_unchanged: "client (snd (list_sessions srv st)) = client st"
  by (simp add: list_sessions_def http_def Let_def split: response.splits sum.splits payload.splits)

subsection \<open>Constructing file parts\<close>

lemma FilePart_from_file_eq:
  "FilePart_from_file fs file =
     (if \<not> (path_exists fs (path_resolve fs file) \<and> path_isfile fs (path_resolve fs file))
      then Inl (ValueError does_not_exist)
      else case guess_type fs (path_resolve fs file) of
             None \<Rightarrow> Inl (ValueError no_mimetype_path)
           | Some mt \<Rightarrow>
               if mt = [] then Inl (ValueError no_mimetype_path)
               else if \<not> prefix ''text/'' mt then Inl (ValueError (''Unsopported type: '' @ mt))
               else (case open_read fs (path_resolve fs file) of
                       Inl e \<Rightarrow> Inl e
                     | Inr content \<Rightarrow>
                         Inr \<lparr>FilePart_mime = mt, FilePart_url = ''file://'' @ path_resolve fs file,
                              FilePart_type = ''file'', FilePart_id = '''', FilePart_filename = file,
                              FilePart_source = Some
                                \<lparr>FileSource_path = path_resolve fs file,
                                 FileSource_text =
                                   \<lparr>FileSourceText_end = int (length content),
                                    FileSourceText_start = 0, FileSourceText_value = content\<rparr>,
                                 FileSource_type = ''file''\<rparr>\<rparr>))"
  by (simp add: FilePart_from_file_def FileSource_from_file_def FileSourceText_from_file_def
      raw_guess_mimetypes_def Let_def split: option.splits sum.splits)


lemma FilePart_from_url_None:
  "\<not> truthy (guess_type fs f) \<Longrightarrow> FilePart_from_url fs f = Inl (ValueError no_mimetype_url)"
  by (simp add: FilePart_from_url_def raw_guess_mimetypes_def)


lemma remote_propagates:
  "startswith_scheme f \<Longrightarrow> \<not> truthy (guess_type fs f) \<Longrightarrow> propagates fs f"
  by (simp add: propagates_def construct_def FilePart_from_url_None)



subsection \<open>The loops of \<open>send_message\<close>\<close>

text \<open>
  The loop over the texts appends one part per text. The loop over the files, when no
  input raises an exception that leaves \<open>send_message\<close>, appends the parts that
  construct and issues the warnings of those that fail; at the first input whose
  exception leaves, it stops with that exception and keeps the warnings issued so far.
\<close>

lemma text_loop_append:
  "text_loop ts parts = parts @ map (\<lambda>t. Part_Text (TextPart_from_string t)) ts"
  by (induction ts arbitrary: parts) simp_all

lemma include_file_kept:
  assumes "\<not> propagates fs f"
  shows "include_file fs f parts st =
           (Inr (parts @ constructed_parts fs [f]),
            st\<lparr>warnings := warnings st @ skipped_warnings fs [f]\<rparr>)"
  using assms
  by (cases "startswith_scheme f")
     (auto simp: include_file_def propagates_def construct_def constructed_parts_def
      skipped_warnings_def warn_def split: sum.splits option.splits)

lemma include_file_raised:
  assumes "propagates fs f"
  shows "\<exists>e. construct fs f = Inl e \<and> include_file fs f parts st = (Inl e, st)"
  using assms
  by (cases "startswith_scheme f")
     (auto simp: include_file_def propagates_def construct_def split: sum.splits option.splits)

lemma constructed_parts_Cons:
  "constructed_parts fs (f # fl) = constructed_parts fs [f] @ constructed_parts fs fl"
  by (simp add: constructed_parts_def)

lemma skipped_warnings_Cons:
  "skipped_warnings fs (f # fl) = skipped_warnings fs [f] @ skipped_warnings fs fl"
  by (simp add: skipped_warnings_def)




lemma file_loop_kept:
  assumes "\<forall>f\<in>set fl. \<not> propagates fs f"
  shows "file_loop fs fl parts st =
           (Inr (parts @ constructed_parts fs fl),
            st\<lparr>warnings := warnings st @ skipped_warnings fs fl\<rparr>)"
  using assms
proof (induction fl arbitrary: parts st)
  case Nil
  show ?case by (simp add: constructed_parts_def skipped_warnings_def)
next
  case (Cons f fl)
  have f: "\<not> propagates fs f" and rest: "\<forall>g\<in>set fl. \<not> propagates fs g"
    using Cons.prems by simp_all
  show ?case
    by (simp add: include_file_kept [OF f] Cons.IH [OF rest]
        constructed_parts_Cons [of fs f fl] skipped_warnings_Cons [of fs f fl])
qed

lemma file_loop_raised:
  assumes "\<forall>g\<in>set pre. \<not> propagates fs g" and "propagates fs f"
  shows "\<exists>e. construct fs f = Inl e \<and>
           file_loop fs (pre @ f # post) parts st =
             (Inl e, st\<lparr>warnings := warnings st @ skipped_warnings fs pre\<rparr>)"
  using assms
proof (induction pre arbitrary: parts st)
  case Nil
  obtain e where "construct fs f = Inl e" "include_file fs f parts st = (Inl e, st)"
    using include_file_raised [OF Nil(2)] by blast
  then show ?case by (simp add: skipped_warnings_def)
next
  case (Cons g pre)
  have g: "\<not> propagates fs g" and rest: "\<forall>h\<in>set pre. \<not> propagates fs h"
    using Cons.prems by simp_all
  obtain e where e: "construct fs f = Inl e"
    and loop: "file_loop fs (pre @ f # post) (parts @ constructed_parts fs [g])
                 (st\<lparr>warnings := warnings st @ skipped_warnings fs [g]\<rparr>) =
               (Inl e, st\<lparr>warnings := warnings st @ skipped_warnings fs [g]\<rparr>
                         \<lparr>warnings := warnings (st\<lparr>warnings := warnings st @ skipped_warnings fs [g]\<rparr>)
                                        @ skipped_warnings fs pre\<rparr>)"
    using Cons.IH [OF rest Cons.prems(2)] by blast
  show ?case
    by (simp add: include_file_kept [OF g] skipped_warnings_Cons [of fs g pre] e loop)
qed

lemma file_loop_some_raised:
  assumes "f \<in> set fl" and "propagates fs f"
  shows "\<exists>e st'. file_loop fs fl parts st = (Inl e, st') \<and> requests st' = requests st
           \<and> client st' = client st"
proof -
  have "\<exists>g\<in>set fl. propagates fs g" using assms by blast
  then obtain pre g post where fl: "fl = pre @ g # post" and g: "propagates fs g"
    and pre: "\<forall>h\<in>set pre. \<not> propagates fs h"
    using split_list_first_prop [of fl "propagates fs"] by blast
  from file_loop_raised [OF pre g, of post parts st] show ?thesis
    unfolding fl by auto
qed

lemma include_files_file_loop:
  "include_files fs file parts st = file_loop fs (file_inputs file) parts st"
proof (cases "file")
  case None
  then show ?thesis by (simp add: include_files_def)
next
  case (Some a)
  show ?thesis
  proof (cases a)
    case (Str f)
    show ?thesis
      by (cases "include_file fs f parts st"; cases "fst (include_file fs f parts st)")
         (simp_all add: include_files_def Some Str)
  next
    case (Strs fl)
    then show ?thesis by (cases fl) (simp_all add: include_files_def Some)
  qed
qed


lemma send_message_composed:
  assumes "session_id_or_current session_id (client st) = Inr sid"
      and "\<forall>f\<in>set (file_inputs file). \<not> propagates fs f"
  shows "send_message srv fs text file system_message session_id st =
     (let um = new_UserMessage (client st)
                 (map (\<lambda>t. Part_Text (TextPart_from_string t)) (text_inputs text)
                  @ constructed_parts fs (file_inputs file)) system_message;
          r = message_request (client st) sid um;
          res = answer (srv (requests st) r)
      in (res,
          \<lparr>client = (client st)\<lparr>chat_history := chat_history (client st) @
                       (case res of Inl e \<Rightarrow> [User um] | Inr am \<Rightarrow> [User um, Assistant am])\<rparr>,
           requests = requests st @ [r],
           warnings = warnings st @ skipped_warnings fs (file_inputs file)\<rparr>))"
proof -
  have parts: "(case text of Strs ts \<Rightarrow> text_loop ts [] | Str t \<Rightarrow> [Part_Text (TextPart_from_string t)])
      = map (\<lambda>t. Part_Text (TextPart_from_string t)) (text_inputs text)"
    by (cases "text") (simp_all add: text_loop_append)
  show ?thesis
    by (cases "answer (srv (requests st) (message_request (client st) sid (new_UserMessage (client st)
                 (map (\<lambda>t. Part_Text (TextPart_from_string t)) (text_inputs text)
                  @ constructed_parts fs (file_inputs file)) system_message)))")
       (simp_all add: send_message_def assms(1) parts include_files_file_loop
        file_loop_kept [OF assms(2)] send_message_to_session_eq history_append_def Let_def
        message_request_chat_history)
qed

subsection \<open>The concrete file system and server\<close>

lemma demo_fs_simps:
  "path_resolve demo_fs f = ''/work/'' @ f"
  "guess_type demo_fs p = (if suffix ''.txt'' p then Some ''text/plain''
                         else if suffix ''.png'' p then Some ''image/png'' else None)"
  "open_read demo_fs p = (if p = ''/work/notes.txt'' then Inr ''hello''
                        else if p = ''/work/latin1.txt'' then Inl (UnicodeDecodeError ''invalid start byte'')
                        else Inl (OSError ''Permission denied''))"
  "path_exists demo_fs p = (p \<in> set [''/work/notes.txt'', ''/work/locked.txt'', ''/work/latin1.txt'',
                                    ''/work/logo.png'', ''/work/LICENSE''])"
  "path_isfile demo_fs p = (p \<in> set [''/work/notes.txt'', ''/work/locked.txt'', ''/work/latin1.txt'',
                                    ''/work/logo.png'', ''/work/LICENSE''])"
  by (simp_all add: demo_fs_def)

lemma suffix_rev_prefix: "suffix xs ys = prefix (rev xs) (rev ys)"
  by (simp add: suffix_to_prefix)

lemma demo_state1_simps:
  "client demo_state1 = demo_client\<lparr>current_session := Some demo_session\<rparr>"
  "requests demo_state1 = []"
  "warnings demo_state1 = []"
  by (simp_all add: demo_state1_def demo_state_def)

lemma demo_resolved: "session_id_or_current None (client demo_state1) = Inr ''ses_1''"
  by (simp add: session_id_or_current_def py_or_def demo_state1_simps demo_session_def)

lemma demo_construct:
  "construct demo_fs ''notes.txt'' =
     Inr \<lparr>FilePart_mime = ''text/plain'', FilePart_url = ''file:///work/notes.txt'',
          FilePart_type = ''file'', FilePart_id = '''', FilePart_filename = ''notes.txt'',
          FilePart_source = Some \<lparr>FileSource_path = ''/work/notes.txt'',
             FileSource_text = \<lparr>FileSourceText_end = 5, FileSourceText_start = 0,
                                 FileSourceText_value = ''hello''\<rparr>,
             FileSource_type = ''file''\<rparr>\<rparr>"
  "construct demo_fs ''missing.txt'' = Inl (ValueError does_not_exist)"
  "construct demo_fs ''locked.txt'' = Inl (OSError ''Permission denied'')"
  "construct demo_fs ''https://x.org/page'' = Inl (ValueError no_mimetype_url)"
  "construct demo_fs ''https://x.org/a.txt'' =
     Inr \<lparr>FilePart_mime = ''text/plain'', FilePart_url = ''https://x.org/a.txt'',
          FilePart_type = ''file'', FilePart_id = '''', FilePart_filename = '''',
          FilePart_source = None\<rparr>"
  by (simp_all add: construct_def startswith_scheme_def FilePart_from_file_eq FilePart_from_url_def
      raw_guess_mimetypes_def demo_fs_simps suffix_rev_prefix)

lemma demo_scheme:
  "\<not> startswith_scheme ''notes.txt''" "\<not> startswith_scheme ''missing.txt''"
  "\<not> startswith_scheme ''locked.txt''"
  "startswith_scheme ''https://x.org/page''" "startswith_scheme ''https://x.org/a.txt''"
  by (simp_all add: startswith_scheme_def)

lemma demo_propagates:
  "\<not> propagates demo_fs ''notes.txt''" "\<not> propagates demo_fs ''missing.txt''"
  "propagates demo_fs ''locked.txt''" "propagates demo_fs ''https://x.org/page''"
  "\<not> propagates demo_fs ''https://x.org/a.txt''"
  by (simp_all add: propagates_def demo_construct demo_scheme)



section \<open>Identifier resolution\<close>

text \<open>
  Claim C1, as the code has it. With no explicit session identifier and no current
  session, \<open>delete_session\<close>, \<open>abort_session\<close> and \<open>send_message\<close> fail with the
  error "no session ID available" and leave the state as it was: no request has
  been sent. \<open>update_session\<close> does the same when it is given a non-empty title;
  without a title it returns at once, without resolving an identifier and without an
  error.
\<close>

theorem no_session_id_before_request:
  assumes "current_session (client st) = None"
  shows "delete_session srv None st = (Inl (ValueError no_session_id), st)
       \<and> abort_session srv None st = (Inl (ValueError no_session_id), st)
       \<and> send_message srv fs text file system_message None st = (Inl (ValueError no_session_id), st)
       \<and> (truthy title \<longrightarrow> update_session srv None title st = (Inl (ValueError no_session_id), st))
       \<and> (\<not> truthy title \<longrightarrow> update_session srv None title st = (Inr (), st))"
  using assms
  by (cases title)
     (simp_all add: delete_session_def abort_session_def send_message_def update_session_def
      session_id_or_current_None)

theorem no_session_id_before_request_witness:
  "current_session (client demo_state) = None
   \<and> delete_session demo_srv None demo_state = (Inl (ValueError no_session_id), demo_state)
   \<and> abort_session demo_srv None demo_state = (Inl (ValueError no_session_id), demo_state)
   \<and> send_message demo_srv demo_fs (Str ''hi'') None None None demo_state
       = (Inl (ValueError no_session_id), demo_state)
   \<and> update_session demo_srv None (Some ''hello'') demo_state
       = (Inl (ValueError no_session_id), demo_state)
   \<and> update_session demo_srv None (Some '''') demo_state = (Inr (), demo_state)"
  using no_session_id_before_request [of demo_state demo_srv demo_fs "Str ''hi''" None None "Some ''hello''"]
    no_session_id_before_request [of demo_state demo_srv demo_fs "Str ''hi''" None None "Some ''''"]
  by (simp add: demo_defs)

text \<open>
  Claim C1 as stated fails: a call of \<open>update_session\<close> with no identifier, no title
  and no current session raises nothing.
\<close>

theorem update_session_without_title_returns:
  "current_session (client demo_state) = None
   \<and> update_session demo_srv None None demo_state = (Inr (), demo_state)"
  by (simp add: update_session_def demo_defs)

text \<open>
  Claim C10, as the code has it. In \<open>delete_session\<close>, \<open>abort_session\<close>,
  \<open>update_session\<close> and \<open>send_message\<close> an explicit session identifier that is the
  empty string gives the same result and the same state as no identifier: resolution
  falls back to the identifier of the current session, and fails with "no session ID
  available" when the current session is absent (or its identifier is empty). With no
  current session, \<open>delete_session\<close>, \<open>abort_session\<close> and \<open>send_message\<close> raise
  that error before any request; \<open>update_session\<close> raises it when its title is not
  empty.
\<close>

theorem empty_session_id_as_none:
  "delete_session srv (Some '''') st = delete_session srv None st
   \<and> abort_session srv (Some '''') st = abort_session srv None st
   \<and> update_session srv (Some '''') title st = update_session srv None title st
   \<and> send_message srv fs text file system_message (Some '''') st
       = send_message srv fs text file system_message None st
   \<and> session_id_or_current (Some '''') (client st) =
       (case current_session (client st) of
          None \<Rightarrow> Inl (ValueError no_session_id)
        | Some s \<Rightarrow> if Session_id s = [] then Inl (ValueError no_session_id) else Inr (Session_id s))
   \<and> (current_session (client st) = None \<longrightarrow>
         delete_session srv (Some '''') st = (Inl (ValueError no_session_id), st)
       \<and> abort_session srv (Some '''') st = (Inl (ValueError no_session_id), st)
       \<and> send_message srv fs text file system_message (Some '''') st = (Inl (ValueError no_session_id), st)
       \<and> (truthy title \<longrightarrow> update_session srv (Some '''') title st = (Inl (ValueError no_session_id), st)))"
proof -
  have fallback: "session_id_or_current (Some '''') (client st) =
       (case current_session (client st) of
          None \<Rightarrow> Inl (ValueError no_session_id)
        | Some s \<Rightarrow> if Session_id s = [] then Inl (ValueError no_session_id) else Inr (Session_id s))"
    by (simp add: session_id_or_current_def py_or_def split: option.splits)
  show ?thesis
    by (cases title)
       (simp_all add: delete_session_def abort_session_def update_session_def send_message_def
        session_id_or_current_empty session_id_or_current_None fallback [unfolded session_id_or_current_empty])
qed

text \<open>Claim C10 on the fresh client (no current session) and on the client whose
  current session is \<open>ses_1\<close>.\<close>

theorem empty_session_id_as_none_witness:
  "current_session (client demo_state) = None
   \<and> truthy (Some ''hello'')
   \<and> delete_session demo_srv (Some '''') demo_state = (Inl (ValueError no_session_id), demo_state)
   \<and> abort_session demo_srv (Some '''') demo_state = (Inl (ValueError no_session_id), demo_state)
   \<and> send_message demo_srv demo_fs (Str ''hi'') None None (Some '''') demo_state
        = (Inl (ValueError no_session_id), demo_state)
   \<and> update_session demo_srv (Some '''') (Some ''hello'') demo_state
        = (Inl (ValueError no_session_id), demo_state)
   \<and> session_id_or_current (Some '''') (client demo_state1) = Inr ''ses_1''"
proof -
  have none: "current_session (client demo_state) = None"
    by (simp add: demo_defs)
  have title: "truthy (Some ''hello'')"
    by simp
  have current: "current_session (client demo_state1) = Some demo_session"
    by (simp add: demo_defs)
  have "session_id_or_current (Some '''') (client demo_state1) = Inr ''ses_1''"
    using empty_session_id_as_none [of demo_srv demo_state1 "Some ''hello''" demo_fs "Str ''hi''" None None]
    by (simp add: current) (simp add: demo_session_def)
  with none title empty_session_id_as_none [of demo_srv demo_state "Some ''hello''" demo_fs "Str ''hi''" None None]
  show ?thesis by blast
qed

text \<open>
  Claim C10 as stated fails for \<open>update_session\<close>: with the empty string for the
  identifier, no title and no current session, no error is raised.
\<close>

theorem update_session_empty_id_without_title_returns:
  "current_session (client demo_state) = None
   \<and> update_session demo_srv (Some '''') (Some '''') demo_state = (Inr (), demo_state)"
  by (simp add: update_session_def demo_defs)

section \<open>Creating and listing sessions\<close>

text \<open>
  Claim C8. Every call of \<open>create_current_session\<close> sends exactly one request,
  \<open>POST /session\<close>, whose body carries \<open>parentID\<close> as the given parent identifier,
  or the empty string when it is absent, and the title. Whenever the call returns a
  session, that session is the one the server returned, it is the client's current
  session afterwards, and so the identifier of the current session is the identifier of
  the new session. Whenever the server answers with a session, the call returns it.
\<close>

theorem create_current_session_sets_current:
  "requests (snd (create_current_session srv title parent_id st)) =
     requests st @
       [\<lparr>req_base_url = base_url (client st), req_timeout = timeout (client st), req_method = POST,
         req_url = ''/session'',
         req_json = Some (JDict [(''parentID'', JStr (case parent_id of None \<Rightarrow> '''' | Some p \<Rightarrow> p)),
                                 (''title'', (case title of None \<Rightarrow> JNone | Some t \<Rightarrow> JStr t))])\<rparr>]
   \<and> (\<forall>s st'. create_current_session srv title parent_id st = (Inr s, st') \<longrightarrow>
         current_session (client st') = Some s
         \<and> map_option Session_id (current_session (client st')) = Some (Session_id s)
         \<and> srv (requests st) (last (requests st')) = Response True (One (Session_obj s)))
   \<and> (\<forall>s. srv (requests st)
              \<lparr>req_base_url = base_url (client st), req_timeout = timeout (client st), req_method = POST,
               req_url = ''/session'', req_json = Some (create_json title parent_id)\<rparr>
            = Response True (One (Session_obj s)) \<longrightarrow>
          (\<exists>st'. create_current_session srv title parent_id st = (Inr s, st')
                 \<and> current_session (client st') = Some s))"
  by (simp add: create_current_session_requests create_current_session_Inr create_json_eq)

text \<open>Claim C8 on the fresh client: \<open>parentID\<close> is the empty string and the current
  session is the session of the server.\<close>

theorem create_current_session_sets_current_witness:
  "requests (snd (create_current_session demo_srv (Some ''test'') None demo_state)) =
     [\<lparr>req_base_url = ''http://127.0.0.1:4596'', req_timeout = 600, req_method = POST,
       req_url = ''/session'',
       req_json = Some (JDict [(''parentID'', JStr ''''), (''title'', JStr ''test'')])\<rparr>]
   \<and> (\<exists>st'. create_current_session demo_srv (Some ''test'') None demo_state = (Inr demo_session, st')
         \<and> current_session (client st') = Some demo_session)"
  using create_current_session_sets_current [of demo_srv "Some ''test''" None demo_state]
  by (simp add: demo_srv_def demo_state_def demo_client_def init_def)

text \<open>
  Claim C3 at the fresh client and a server with two sessions. \<open>list_sessions\<close>
  returns the two decoded sessions in the order of the response, and the client after
  the call is the client before it: the object has no field for a session cache
  (\<open>__init__\<close> sets none, \<open>list_sessions\<close> assigns none), so nothing is replaced.
\<close>

theorem list_sessions_stores_nothing:
  "list_sessions demo_srv demo_state =
     (Inr [demo_session, demo_session2],
      demo_state\<lparr>requests := [\<lparr>req_base_url = ''http://127.0.0.1:4596'', req_timeout = 600,
                                req_method = GET, req_url = ''/session'', req_json = None\<rparr>]\<rparr>)"
  by (simp add: list_sessions_def http_def demo_srv_def demo_state_def demo_client_def init_def)

section \<open>File inspection\<close>

text \<open>
  Claim C9. \<open>_perform_file_operation\<close> with a query that is \<open>None\<close> or empty, for
  any operation but \<open>get_status\<close>, fails with "Operation ... requires a query value."
  and leaves the state as it was, so no request has been sent; so do \<open>read_file\<close>,
  \<open>search_file_by_name\<close> and \<open>search_file_by_text\<close> on the empty string.
  \<open>get_files_status\<close> passes no query, always sends \<open>GET /file/status\<close> and never
  fails with a \<open>ValueError\<close>.
\<close>

theorem file_operation_requires_query:
  "(\<not> truthy query \<and> operation \<noteq> Op_get_status \<longrightarrow>
      perform_file_operation srv operation query st = (Inl (ValueError (requires_query operation)), st))
   \<and> read_file srv '''' st = (Inl (ValueError ''Operation read requires a query value.''), st)
   \<and> search_file_by_name srv '''' st
        = (Inl (ValueError ''Operation search_by_name requires a query value.''), st)
   \<and> search_file_by_text srv '''' st
        = (Inl (ValueError ''Operation search_by_text requires a query value.''), st)
   \<and> requests (snd (get_files_status srv st)) =
        requests st @ [\<lparr>req_base_url = base_url (client st), req_timeout = timeout (client st),
                        req_method = GET, req_url = ''/file/status'', req_json = None\<rparr>]
   \<and> (\<forall>m. fst (get_files_status srv st) \<noteq> Inl (ValueError m))"
proof -
  have status_requests: "requests (snd (get_files_status srv st)) =
        requests st @ [\<lparr>req_base_url = base_url (client st), req_timeout = timeout (client st),
                        req_method = GET, req_url = ''/file/status'', req_json = None\<rparr>]"
    by (simp add: get_files_status_def perform_file_operation_def http_eq
        split: response.splits sum.splits payload.splits)
  have status_error: "fst (get_files_status srv st) \<noteq> Inl (ValueError m)" for m
    by (simp add: get_files_status_def perform_file_operation_def http_eq
        map_sum_not_ValueError Files_loop_not_ValueError res_json_Inr
        split: response.splits sum.splits payload.splits)
  show ?thesis
    by (simp add: perform_file_operation_guard read_file_def search_file_by_name_def
        search_file_by_text_def requires_query_def status_requests status_error)
qed

text \<open>Claim C9 on the fresh client, for a missing query and for an empty one.\<close>

theorem file_operation_requires_query_witness:
  "\<not> truthy None \<and> Op_read \<noteq> Op_get_status
   \<and> perform_file_operation demo_srv Op_read None demo_state
        = (Inl (ValueError ''Operation read requires a query value.''), demo_state)
   \<and> perform_file_operation demo_srv Op_search_by_text (Some '''') demo_state
        = (Inl (ValueError ''Operation search_by_text requires a query value.''), demo_state)
   \<and> read_file demo_srv '''' demo_state
        = (Inl (ValueError ''Operation read requires a query value.''), demo_state)
   \<and> requests (snd (get_files_status demo_srv demo_state)) =
        [\<lparr>req_base_url = ''http://127.0.0.1:4596'', req_timeout = 600,
          req_method = GET, req_url = ''/file/status'', req_json = None\<rparr>]"
  using file_operation_requires_query [of None Op_read demo_srv demo_state] file_operation_requires_query [of "Some ''''" Op_search_by_text demo_srv demo_state]
  by (simp add: requires_query_def demo_state_def demo_client_def init_def)

section \<open>File parts from local paths\<close>




section \<open>Composing and sending a message\<close>




text \<open>
  Claim C5. If a file input of \<open>send_message\<close> has a remote prefix and no MIME type
  can be guessed from it, the call is aborted: it returns an error, sends no request
  and leaves the client (and its chat history) as it was. When the session identifier
  resolves and no earlier input raises an exception that leaves the call, the error is
  the \<open>ValueError\<close> of \<open>FilePart.from_url\<close>, and the warnings of the earlier inputs
  have been issued.
\<close>

theorem remote_failure_aborts:
  assumes "file_inputs file = pre @ f # post"
      and "startswith_scheme f"
      and "\<not> truthy (guess_type fs f)"
  shows "(\<exists>e st'. send_message srv fs text file system_message session_id st = (Inl e, st')
             \<and> requests st' = requests st \<and> client st' = client st)
       \<and> ((\<exists>sid. session_id_or_current session_id (client st) = Inr sid)
            \<and> \<not> list_ex (propagates fs) pre \<longrightarrow>
          send_message srv fs text file system_message session_id st =
            (Inl (ValueError no_mimetype_url), st\<lparr>warnings := warnings st @ skipped_warnings fs pre\<rparr>))"
proof (cases "session_id_or_current session_id (client st)")
  case (Inl e)
  then show ?thesis by (simp add: send_message_def)
next
  case (Inr sid)
  have raised: "propagates fs f" by (rule remote_propagates [OF assms(2,3)])
  have mem: "f \<in> set (file_inputs file)" by (simp add: assms(1))
  have c: "construct fs f = Inl (ValueError no_mimetype_url)"
    by (simp add: construct_def assms(2) FilePart_from_url_None [OF assms(3)])
  have always: "\<exists>e st'. send_message srv fs text file system_message session_id st = (Inl e, st')
             \<and> requests st' = requests st \<and> client st' = client st"
  proof -
    obtain e st' where "file_loop fs (file_inputs file)
        (case text of Strs ts \<Rightarrow> text_loop ts [] | Str t \<Rightarrow> [Part_Text (TextPart_from_string t)]) st
          = (Inl e, st')" "requests st' = requests st" "client st' = client st"
      using file_loop_some_raised [OF mem raised] by blast
    then show ?thesis by (simp add: send_message_def Inr include_files_file_loop)
  qed
  have first: "send_message srv fs text file system_message session_id st =
            (Inl (ValueError no_mimetype_url), st\<lparr>warnings := warnings st @ skipped_warnings fs pre\<rparr>)"
    if "\<not> list_ex (propagates fs) pre"
  proof -
    have "\<forall>g\<in>set pre. \<not> propagates fs g" using that by (simp add: list_ex_iff)
    from file_loop_raised [OF this raised] c
    have "file_loop fs (file_inputs file) parts st
            = (Inl (ValueError no_mimetype_url), st\<lparr>warnings := warnings st @ skipped_warnings fs pre\<rparr>)"
      for parts by (simp add: assms(1))
    then show ?thesis by (simp add: send_message_def Inr include_files_file_loop)
  qed
  show ?thesis using always first by blast
qed

text \<open>Claim C5 on a missing local file, then a URL without extension, then a valid
  file.\<close>

theorem remote_failure_aborts_witness:
  "file_inputs (Some (Strs [''missing.txt'', ''https://x.org/page'', ''notes.txt'']))
     = [''missing.txt''] @ ''https://x.org/page'' # [''notes.txt'']
   \<and> startswith_scheme ''https://x.org/page''
   \<and> \<not> truthy (guess_type demo_fs ''https://x.org/page'')
   \<and> send_message demo_srv demo_fs (Str ''hi'')
        (Some (Strs [''missing.txt'', ''https://x.org/page'', ''notes.txt''])) None None demo_state1
      = (Inl (ValueError no_mimetype_url),
         demo_state1\<lparr>warnings := [warning_text ''missing.txt'' does_not_exist]\<rparr>)"
proof -
  have inputs: "file_inputs (Some (Strs [''missing.txt'', ''https://x.org/page'', ''notes.txt'']))
     = [''missing.txt''] @ ''https://x.org/page'' # [''notes.txt'']"
    by simp
  have guess: "\<not> truthy (guess_type demo_fs ''https://x.org/page'')"
    by (simp add: demo_fs_simps suffix_rev_prefix)
  show ?thesis
    using remote_failure_aborts [OF inputs demo_scheme(4) guess, of demo_srv "Str ''hi''" None None demo_state1]
      demo_resolved
    by (simp add: demo_propagates demo_scheme guess skipped_warnings_def demo_construct
        demo_state1_simps)
qed

text \<open>
  Claim C6. In a call of \<open>send_message\<close> whose session identifier resolves and in
  which no file input raises an exception that leaves the call, the message appended to
  the chat history and sent to the server has these parts: one text part per text
  input, in the order of the texts, followed by the file parts of the file inputs that
  construct, in the order of the file inputs.
\<close>

theorem parts_in_input_order:
  assumes "session_id_or_current session_id (client st) = Inr sid"
      and "\<forall>f\<in>set (file_inputs file). \<not> propagates fs f"
  shows "\<exists>res st' um rest.
           send_message srv fs text file system_message session_id st = (res, st')
         \<and> chat_history (client st') = chat_history (client st) @ User um # rest
         \<and> requests st' = requests st @ [message_request (client st) sid um]
         \<and> UserMessage_parts um =
             map (\<lambda>t. Part_Text \<lparr>TextPart_text = t, TextPart_type = ''text''\<rparr>) (text_inputs text)
             @ concat (map (\<lambda>f. case construct fs f of Inr p \<Rightarrow> [Part_File p] | Inl e \<Rightarrow> [])
                         (file_inputs file))"
proof -
  define um where "um = new_UserMessage (client st)
                 (map (\<lambda>t. Part_Text (TextPart_from_string t)) (text_inputs text)
                  @ constructed_parts fs (file_inputs file)) system_message"
  define res where "res = answer (srv (requests st) (message_request (client st) sid um))"
  define st' where "st' = \<lparr>client = (client st)\<lparr>chat_history := chat_history (client st) @
                       (case res of Inl e \<Rightarrow> [User um] | Inr am \<Rightarrow> [User um, Assistant am])\<rparr>,
           requests = requests st @ [message_request (client st) sid um],
           warnings = warnings st @ skipped_warnings fs (file_inputs file)\<rparr>"
  have eq: "send_message srv fs text file system_message session_id st = (res, st')"
    unfolding st'_def res_def um_def send_message_composed [OF assms] Let_def ..
  have "chat_history (client st') = chat_history (client st) @ User um #
          (case res of Inl e \<Rightarrow> [] | Inr am \<Rightarrow> [Assistant am])"
    by (cases res) (simp_all add: st'_def)
  moreover have "requests st' = requests st @ [message_request (client st) sid um]"
    by (simp add: st'_def)
  moreover have "UserMessage_parts um =
             map (\<lambda>t. Part_Text \<lparr>TextPart_text = t, TextPart_type = ''text''\<rparr>) (text_inputs text)
             @ concat (map (\<lambda>f. case construct fs f of Inr p \<Rightarrow> [Part_File p] | Inl e \<Rightarrow> [])
                         (file_inputs file))"
    by (simp add: um_def new_UserMessage_def constructed_parts_def TextPart_from_string_def)
  ultimately show ?thesis using eq by blast
qed

text \<open>Claim C6 on two texts and three file inputs, the second of which is skipped.\<close>

theorem parts_in_input_order_witness:
  "\<exists>res st' um rest.
     send_message demo_srv demo_fs (Strs [''a'', ''b''])
       (Some (Strs [''https://x.org/a.txt'', ''missing.txt'', ''notes.txt''])) None None demo_state1
       = (res, st')
     \<and> chat_history (client st') = User um # rest
     \<and> requests st' = [message_request (client demo_state1) ''ses_1'' um]
     \<and> UserMessage_parts um =
          [Part_Text \<lparr>TextPart_text = ''a'', TextPart_type = ''text''\<rparr>,
           Part_Text \<lparr>TextPart_text = ''b'', TextPart_type = ''text''\<rparr>,
           Part_File \<lparr>FilePart_mime = ''text/plain'', FilePart_url = ''https://x.org/a.txt'',
             FilePart_type = ''file'', FilePart_id = '''', FilePart_filename = '''',
             FilePart_source = None\<rparr>,
           Part_File \<lparr>FilePart_mime = ''text/plain'', FilePart_url = ''file:///work/notes.txt'',
             FilePart_type = ''file'', FilePart_id = '''', FilePart_filename = ''notes.txt'',
             FilePart_source = Some \<lparr>FileSource_path = ''/work/notes.txt'',
               FileSource_text = \<lparr>FileSourceText_end = 5, FileSourceText_start = 0,
                                   FileSourceText_value = ''hello''\<rparr>,
               FileSource_type = ''file''\<rparr>\<rparr>]"
proof -
  have kept: "\<forall>f\<in>set (file_inputs (Some (Strs [''https://x.org/a.txt'', ''missing.txt'', ''notes.txt'']))).
                \<not> propagates demo_fs f"
    by (simp add: demo_propagates)
  show ?thesis
    using parts_in_input_order [OF demo_resolved kept, of demo_srv "Strs [''a'', ''b'']" None]
    by (simp add: demo_construct demo_state1_simps demo_client_def init_def)
qed



end
